theory Spec2Isabelle
  imports Complex_Main
begin

section \<open>JavaScript numbers\<close>

text \<open>
  Every quantity of \<^verbatim>\<open>app.js\<close> is a JavaScript number. The model keeps the three
  special values of a number apart from the finite ones, so that a division by zero, a
  \<^verbatim>\<open>parseFloat\<close> of a non-numeric string and the falsy test of \<^verbatim>\<open>a || b\<close> are
  branches of the model. Finite values are real numbers: rounding to 64-bit floats,
  overflow to infinity and the sign of zero are left out, so every equation below is an
  equation of exact arithmetic.
\<close>

datatype jsnum = Fin real | PInf | NInf | NaN

instantiation jsnum :: "{plus, minus, uminus, times, inverse, ord}"
begin

fun uminus_jsnum :: "jsnum \<Rightarrow> jsnum" where
  "uminus_jsnum (Fin a) = Fin (- a)"
| "uminus_jsnum PInf = NInf"
| "uminus_jsnum NInf = PInf"
| "uminus_jsnum NaN = NaN"

fun plus_jsnum :: "jsnum \<Rightarrow> jsnum \<Rightarrow> jsnum" where
  "plus_jsnum (Fin a) (Fin b) = Fin (a + b)"
| "plus_jsnum NaN _ = NaN"
| "plus_jsnum _ NaN = NaN"
| "plus_jsnum PInf NInf = NaN"
| "plus_jsnum NInf PInf = NaN"
| "plus_jsnum PInf _ = PInf"
| "plus_jsnum _ PInf = PInf"
| "plus_jsnum NInf _ = NInf"
| "plus_jsnum _ NInf = NInf"

definition minus_jsnum :: "jsnum \<Rightarrow> jsnum \<Rightarrow> jsnum" where
  "minus_jsnum a b = a + (- b)"

fun times_jsnum :: "jsnum \<Rightarrow> jsnum \<Rightarrow> jsnum" where
  "times_jsnum (Fin a) (Fin b) = Fin (a * b)"
| "times_jsnum NaN _ = NaN"
| "times_jsnum _ NaN = NaN"
| "times_jsnum PInf (Fin b) = (if b = 0 then NaN else if 0 < b then PInf else NInf)"
| "times_jsnum NInf (Fin b) = (if b = 0 then NaN else if 0 < b then NInf else PInf)"
| "times_jsnum (Fin a) PInf = (if a = 0 then NaN else if 0 < a then PInf else NInf)"
| "times_jsnum (Fin a) NInf = (if a = 0 then NaN else if 0 < a then NInf else PInf)"
| "times_jsnum PInf PInf = PInf"
| "times_jsnum NInf NInf = PInf"
| "times_jsnum PInf NInf = NInf"
| "times_jsnum NInf PInf = NInf"

fun divide_jsnum :: "jsnum \<Rightarrow> jsnum \<Rightarrow> jsnum" where
  "divide_jsnum (Fin a) (Fin b) =
     (if b = 0 then (if a = 0 then NaN else if 0 < a then PInf else NInf)
      else Fin (a / b))"
| "divide_jsnum NaN _ = NaN"
| "divide_jsnum _ NaN = NaN"
| "divide_jsnum (Fin a) _ = Fin 0"
| "divide_jsnum PInf (Fin b) = (if 0 \<le> b then PInf else NInf)"
| "divide_jsnum NInf (Fin b) = (if 0 \<le> b then NInf else PInf)"
| "divide_jsnum _ _ = NaN"

definition inverse_jsnum :: "jsnum \<Rightarrow> jsnum" where
  "inverse_jsnum a = divide (Fin 1) a"

fun less_jsnum :: "jsnum \<Rightarrow> jsnum \<Rightarrow> bool" where
  "less_jsnum (Fin a) (Fin b) = (a < b)"
| "less_jsnum NaN _ = False"
| "less_jsnum _ NaN = False"
| "less_jsnum NInf NInf = False"
| "less_jsnum NInf _ = True"
| "less_jsnum PInf _ = False"
| "less_jsnum (Fin a) PInf = True"
| "less_jsnum (Fin a) NInf = False"

fun less_eq_jsnum :: "jsnum \<Rightarrow> jsnum \<Rightarrow> bool" where
  "less_eq_jsnum (Fin a) (Fin b) = (a \<le> b)"
| "less_eq_jsnum NaN _ = False"
| "less_eq_jsnum _ NaN = False"
| "less_eq_jsnum NInf _ = True"
| "less_eq_jsnum PInf PInf = True"
| "less_eq_jsnum PInf _ = False"
| "less_eq_jsnum (Fin a) PInf = True"
| "less_eq_jsnum (Fin a) NInf = False"

instance ..

end

text \<open>The functions of the \<^verbatim>\<open>Math\<close> object that the source calls.\<close>

fun Math_max :: "jsnum \<Rightarrow> jsnum \<Rightarrow> jsnum" where
  "Math_max NaN _ = NaN"
| "Math_max _ NaN = NaN"
| "Math_max a b = (if a < b then b else a)"

fun Math_min :: "jsnum \<Rightarrow> jsnum \<Rightarrow> jsnum" where
  "Math_min NaN _ = NaN"
| "Math_min _ NaN = NaN"
| "Math_min a b = (if b < a then b else a)"

fun Math_abs :: "jsnum \<Rightarrow> jsnum" where
  "Math_abs (Fin a) = Fin \<bar>a\<bar>"
| "Math_abs PInf = PInf"
| "Math_abs NInf = PInf"
| "Math_abs NaN = NaN"

fun Math_sqrt :: "jsnum \<Rightarrow> jsnum" where
  "Math_sqrt (Fin a) = (if a < 0 then NaN else Fin (sqrt a))"
| "Math_sqrt PInf = PInf"
| "Math_sqrt _ = NaN"

fun Math_hypot :: "jsnum \<Rightarrow> jsnum \<Rightarrow> jsnum" where
  "Math_hypot (Fin a) (Fin b) = Fin (sqrt (a * a + b * b))"
| "Math_hypot PInf _ = PInf"
| "Math_hypot NInf _ = PInf"
| "Math_hypot _ PInf = PInf"
| "Math_hypot _ NInf = PInf"
| "Math_hypot _ _ = NaN"

fun Math_sin :: "jsnum \<Rightarrow> jsnum" where
  "Math_sin (Fin a) = Fin (sin a)"
| "Math_sin _ = NaN"

fun Math_cos :: "jsnum \<Rightarrow> jsnum" where
  "Math_cos (Fin a) = Fin (cos a)"
| "Math_cos _ = NaN"

text \<open>\<^verbatim>\<open>Math.pow(b, 1.5)\<close>, the only power the source takes.\<close>

fun Math_pow_1_5 :: "jsnum \<Rightarrow> jsnum" where
  "Math_pow_1_5 (Fin a) = (if a < 0 then NaN else Fin (a powr (3 / 2)))"
| "Math_pow_1_5 PInf = PInf"
| "Math_pow_1_5 NInf = PInf"
| "Math_pow_1_5 NaN = NaN"

definition Math_PI :: jsnum where
  "Math_PI = Fin pi"

text \<open>
  \<^verbatim>\<open>a || b\<close> on numbers: \<^verbatim>\<open>b\<close> when \<^verbatim>\<open>a\<close> is falsy, that is \<^verbatim>\<open>undefined\<close>
  (here \<open>None\<close>), zero or \<^verbatim>\<open>NaN\<close>. A property that is read without a default is
  \<^verbatim>\<open>undefined\<close> when it is absent, and arithmetic turns that into \<^verbatim>\<open>NaN\<close>.
\<close>

definition falsy :: "jsnum \<Rightarrow> bool" where
  "falsy a = (a = Fin 0 \<or> a = NaN)"

fun or_else :: "jsnum option \<Rightarrow> jsnum \<Rightarrow> jsnum" where
  "or_else None d = d"
| "or_else (Some a) d = (if falsy a then d else a)"

fun to_number :: "jsnum option \<Rightarrow> jsnum" where
  "to_number None = NaN"
| "to_number (Some a) = a"

section \<open>The collision simulation\<close>

text \<open>
  \<^verbatim>\<open>collisionSim(canvas, params)\<close> closes over two ball objects and the flag
  \<^verbatim>\<open>running\<close>. The canvas is read for its width and height only; what is drawn on it
  and the calls of \<^verbatim>\<open>requestAnimationFrame\<close> belong to the host and are left out, so a
  tick is one call of \<^verbatim>\<open>step\<close>.
\<close>

record canvas =
  width :: jsnum
  height :: jsnum

record ball =
  b_x :: jsnum
  b_y :: jsnum
  b_vx :: jsnum
  b_vy :: jsnum
  b_r :: jsnum
  b_m :: jsnum

record collision_params =
  p_m1 :: "jsnum option"
  p_m2 :: "jsnum option"
  p_v1 :: "jsnum option"
  p_v2 :: "jsnum option"
  p_r1 :: "jsnum option"
  p_r2 :: "jsnum option"
  p_e :: "jsnum option"

record collision_state =
  col_running :: bool
  ball1 :: ball
  ball2 :: ball

definition pxScale :: jsnum where
  "pxScale = Fin 20"

definition placeInitial :: "canvas \<Rightarrow> collision_params \<Rightarrow> collision_state \<Rightarrow> collision_state" where
  "placeInitial c p s =
     s\<lparr>ball1 := \<lparr>b_x = width c * Fin 0.25, b_y = height c / Fin 2,
                  b_vx = or_else (p_v1 p) (Fin 0) * pxScale, b_vy = Fin 0,
                  b_r = or_else (p_r1 p) (Fin 20), b_m = to_number (p_m1 p)\<rparr>,
       ball2 := \<lparr>b_x = width c * Fin 0.75, b_y = height c / Fin 2,
                  b_vx = or_else (p_v2 p) (Fin 0) * pxScale, b_vy = Fin 0,
                  b_r = or_else (p_r2 p) (Fin 20), b_m = to_number (p_m2 p)\<rparr>\<rparr>"

text \<open>The Euler step of \<^verbatim>\<open>update\<close> for one ball.\<close>

definition integrate :: "jsnum \<Rightarrow> ball \<Rightarrow> ball" where
  "integrate dt b = b\<lparr>b_x := b_x b + b_vx b * dt, b_y := b_y b + b_vy b * dt\<rparr>"

text \<open>The body of the \<^verbatim>\<open>forEach\<close> of \<^verbatim>\<open>update\<close>: four tests in the source's order.\<close>

definition wall_bounce :: "canvas \<Rightarrow> ball \<Rightarrow> ball" where
  "wall_bounce c b0 =
     (let b1 = (if b_x b0 - b_r b0 < Fin 0
                then b0\<lparr>b_x := b_r b0, b_vx := b_vx b0 * Fin (- 1)\<rparr> else b0);
          b2 = (if width c < b_x b1 + b_r b1
                then b1\<lparr>b_x := width c - b_r b1, b_vx := b_vx b1 * Fin (- 1)\<rparr> else b1);
          b3 = (if b_y b2 - b_r b2 < Fin 0
                then b2\<lparr>b_y := b_r b2, b_vy := b_vy b2 * Fin (- 1)\<rparr> else b2)
      in (if height c < b_y b3 + b_r b3
          then b3\<lparr>b_y := height c - b_r b3, b_vy := b_vy b3 * Fin (- 1)\<rparr> else b3))"

text \<open>\<^verbatim>\<open>Math.max(0, Math.min(1, params.e!==undefined?params.e:1))\<close>\<close>

definition restitution :: "jsnum option \<Rightarrow> jsnum" where
  "restitution pe = Math_max (Fin 0) (Math_min (Fin 1) (case pe of None \<Rightarrow> Fin 1 | Some e \<Rightarrow> e))"

text \<open>
  The rest of \<^verbatim>\<open>update\<close>: the test for a collision of the two balls and, in its
  branch, the new velocities and the positional correction.
\<close>

definition collide :: "jsnum option \<Rightarrow> ball \<times> ball \<Rightarrow> ball \<times> ball" where
  "collide pe bb =
     (let a = fst bb; b = snd bb;
          dx = b_x b - b_x a;
          dy = b_y b - b_y a;
          dist = Math_hypot dx dy
      in if dist \<le> b_r a + b_r b then
           (let nx = dx / dist;
                ny = dy / dist;
                tx = - ny; ty = nx;
                v1n = b_vx a * nx + b_vy a * ny;
                v1t = b_vx a * tx + b_vy a * ty;
                v2n = b_vx b * nx + b_vy b * ny;
                v2t = b_vx b * tx + b_vy b * ty;
                e = restitution pe;
                m1 = b_m a; m2 = b_m b;
                v1nPrime = (m1 * v1n + m2 * v2n + m2 * e * (v2n - v1n)) / (m1 + m2);
                v2nPrime = (m1 * v1n + m2 * v2n + m1 * e * (v1n - v2n)) / (m1 + m2);
                overlap = (b_r a + b_r b) - dist;
                correction = overlap / Fin 2
            in (a\<lparr>b_vx := v1nPrime * nx + v1t * tx, b_vy := v1nPrime * ny + v1t * ty,
                   b_x := b_x a - nx * correction, b_y := b_y a - ny * correction\<rparr>,
                b\<lparr>b_vx := v2nPrime * nx + v2t * tx, b_vy := v2nPrime * ny + v2t * ty,
                   b_x := b_x b + nx * correction, b_y := b_y b + ny * correction\<rparr>))
         else (a, b))"

definition update :: "jsnum \<Rightarrow> canvas \<Rightarrow> collision_params \<Rightarrow> collision_state \<Rightarrow> collision_state" where
  "update dt c p s =
     (let bb = collide (p_e p)
                 (wall_bounce c (integrate dt (ball1 s)), wall_bounce c (integrate dt (ball2 s)))
      in s\<lparr>ball1 := fst bb, ball2 := snd bb\<rparr>)"

definition collision_step :: "canvas \<Rightarrow> collision_params \<Rightarrow> collision_state \<Rightarrow> collision_state" where
  "collision_step c p s = (if \<not> col_running s then s else update (Fin 0.016) c p s)"

definition collision_start :: "canvas \<Rightarrow> collision_params \<Rightarrow> collision_state \<Rightarrow> collision_state" where
  "collision_start c p s = placeInitial c p (s\<lparr>col_running := True\<rparr>)"

definition collision_pause :: "collision_state \<Rightarrow> collision_state" where
  "collision_pause s = s\<lparr>col_running := False\<rparr>"

definition collision_reset :: "canvas \<Rightarrow> collision_params \<Rightarrow> collision_state \<Rightarrow> collision_state" where
  "collision_reset c p s = (placeInitial c p (s\<lparr>col_running := False\<rparr>))\<lparr>col_running := True\<rparr>"

text \<open>
  The session \<^verbatim>\<open>collisionSim(canvas, params)\<close> returns: the two ball objects as first
  built, then \<^verbatim>\<open>placeInitial()\<close>.
\<close>

definition collisionSim :: "canvas \<Rightarrow> collision_params \<Rightarrow> collision_state" where
  "collisionSim c p =
     placeInitial c p
       \<lparr>col_running = True,
        ball1 = \<lparr>b_x = Fin 0, b_y = Fin 0, b_vx = Fin 0, b_vy = Fin 0,
                 b_r = or_else (p_r1 p) (Fin 20), b_m = or_else (p_m1 p) (Fin 2)\<rparr>,
        ball2 = \<lparr>b_x = Fin 0, b_y = Fin 0, b_vx = Fin 0, b_vy = Fin 0,
                 b_r = or_else (p_r2 p) (Fin 20), b_m = or_else (p_m2 p) (Fin 1)\<rparr>\<rparr>"

section \<open>Projectile, pendulum and spring\<close>

text \<open>
  Each simulation is a function that closes over its variables and returns the object
  \<^verbatim>\<open>{ start, pause, reset, params }\<close>. The closed-over variables are a record here, and
  every method and the frame callback \<^verbatim>\<open>step\<close> take the record and return it updated.
  \<^verbatim>\<open>draw()\<close> writes to the canvas only, except in the circular simulation.
\<close>

record projectile_params =
  prj_g :: jsnum
  prj_speed :: jsnum
  prj_angle :: jsnum

record projectile_state =
  prj_running :: bool
  prj_t :: jsnum

definition projectile_step :: "jsnum \<Rightarrow> projectile_state \<Rightarrow> projectile_state" where
  "projectile_step dt s = (if \<not> prj_running s then s else s\<lparr>prj_t := prj_t s + dt\<rparr>)"

definition projectile_start :: "projectile_state \<Rightarrow> projectile_state" where
  "projectile_start s = s\<lparr>prj_t := Fin 0, prj_running := True\<rparr>"

definition projectile_pause :: "projectile_state \<Rightarrow> projectile_state" where
  "projectile_pause s = s\<lparr>prj_running := False\<rparr>"

definition projectile_reset :: "projectile_state \<Rightarrow> projectile_state" where
  "projectile_reset s = s\<lparr>prj_t := Fin 0\<rparr>"

definition projectileSim :: "projectile_params \<Rightarrow> projectile_state" where
  "projectileSim p = projectile_start \<lparr>prj_running = True, prj_t = Fin 0\<rparr>"

record pendulum_params =
  pnd_length :: jsnum
  pnd_theta0 :: jsnum
  pnd_g :: jsnum

record pendulum_state =
  pnd_theta :: jsnum
  pnd_omega :: jsnum
  pnd_t :: jsnum
  pnd_running :: bool

definition pendulum_step :: "pendulum_params \<Rightarrow> jsnum \<Rightarrow> pendulum_state \<Rightarrow> pendulum_state" where
  "pendulum_step p dt s =
     (if \<not> pnd_running s then s
      else (let L = pnd_length p; g = pnd_g p;
                alpha = - (g / L) * pnd_theta s;
                omega = pnd_omega s + alpha * dt;
                theta = pnd_theta s + omega * dt
            in s\<lparr>pnd_omega := omega, pnd_theta := theta, pnd_t := pnd_t s + dt\<rparr>))"

text \<open>The pendulum returns \<^verbatim>\<open>{ start(){}, pause(){}, reset(){}, params }\<close>: three empty bodies.\<close>

definition pendulum_start :: "pendulum_state \<Rightarrow> pendulum_state" where
  "pendulum_start s = s"

definition pendulum_pause :: "pendulum_state \<Rightarrow> pendulum_state" where
  "pendulum_pause s = s"

definition pendulum_reset :: "pendulum_state \<Rightarrow> pendulum_state" where
  "pendulum_reset s = s"

definition pendulumSim :: "pendulum_params \<Rightarrow> pendulum_state" where
  "pendulumSim p = \<lparr>pnd_theta = pnd_theta0 p, pnd_omega = Fin 0, pnd_t = Fin 0, pnd_running = True\<rparr>"

record spring_params =
  spg_k :: jsnum
  spg_m :: jsnum
  spg_x0 :: jsnum

record spring_state =
  spg_x :: jsnum
  spg_v :: jsnum
  spg_t :: jsnum
  spg_running :: bool

definition spring_step :: "spring_params \<Rightarrow> jsnum \<Rightarrow> spring_state \<Rightarrow> spring_state" where
  "spring_step p dt s =
     (if \<not> spg_running s then s
      else (let k = spg_k p; m = spg_m p;
                a = - (k / m) * spg_x s;
                v = spg_v s + a * dt;
                x = spg_x s + v * dt
            in s\<lparr>spg_v := v, spg_x := x, spg_t := spg_t s + dt\<rparr>))"

text \<open>The spring returns three empty bodies as well.\<close>

definition spring_start :: "spring_state \<Rightarrow> spring_state" where
  "spring_start s = s"

definition spring_pause :: "spring_state \<Rightarrow> spring_state" where
  "spring_pause s = s"

definition spring_reset :: "spring_state \<Rightarrow> spring_state" where
  "spring_reset s = s"

definition springSim :: "spring_params \<Rightarrow> spring_state" where
  "springSim p = \<lparr>spg_x = spg_x0 p, spg_v = Fin 0, spg_t = Fin 0, spg_running = True\<rparr>"

section \<open>Circular motion\<close>

record circular_params =
  crc_radius :: jsnum
  crc_angularSpeed :: jsnum

record point =
  pt_x :: jsnum
  pt_y :: jsnum

record circular_state =
  crc_running :: bool
  crc_angle :: jsnum
  crc_trace :: "point list"

definition maxTrace :: nat where
  "maxTrace = 120"

text \<open>
  \<^verbatim>\<open>draw()\<close> of the circular simulation pushes the current point on the trace and
  shifts the oldest one out when the trace is longer than \<^verbatim>\<open>maxTrace\<close>.
\<close>

definition circular_point :: "canvas \<Rightarrow> circular_params \<Rightarrow> jsnum \<Rightarrow> point" where
  "circular_point c p angle =
     (let W = width c; H = height c;
          cx = W / Fin 2; cy = H / Fin 2;
          r = Math_max (Fin 20) (Math_min (Math_min W H / Fin 2 - Fin 40) (crc_radius p))
      in \<lparr>pt_x = cx + r * Math_cos angle, pt_y = cy + r * Math_sin angle\<rparr>)"

definition circular_draw :: "canvas \<Rightarrow> circular_params \<Rightarrow> circular_state \<Rightarrow> circular_state" where
  "circular_draw c p s =
     (let pushed = crc_trace s @ [circular_point c p (crc_angle s)]
      in s\<lparr>crc_trace := (if maxTrace < length pushed then tl pushed else pushed)\<rparr>)"

definition circular_step :: "canvas \<Rightarrow> circular_params \<Rightarrow> circular_state \<Rightarrow> circular_state" where
  "circular_step c p s =
     (if \<not> crc_running s then s
      else circular_draw c p (s\<lparr>crc_angle := crc_angle s + crc_angularSpeed p * Fin 0.016\<rparr>))"

definition circular_start :: "circular_state \<Rightarrow> circular_state" where
  "circular_start s = s\<lparr>crc_running := True\<rparr>"

definition circular_pause :: "circular_state \<Rightarrow> circular_state" where
  "circular_pause s = s\<lparr>crc_running := False\<rparr>"

definition circular_reset :: "canvas \<Rightarrow> circular_params \<Rightarrow> circular_state \<Rightarrow> circular_state" where
  "circular_reset c p s = circular_draw c p (s\<lparr>crc_angle := Fin 0, crc_trace := []\<rparr>)"

definition circularSim :: "circular_state" where
  "circularSim = circular_start \<lparr>crc_running = True, crc_angle = Fin 0, crc_trace = []\<rparr>"

section \<open>The electric field\<close>

record electric_params =
  p_q1 :: "jsnum option"
  p_q2 :: "jsnum option"

record charge =
  ch_x :: jsnum
  ch_y :: jsnum
  ch_q :: jsnum

record electric_state =
  el_running :: bool
  charges :: "charge list"

definition placeCharges :: "canvas \<Rightarrow> electric_params \<Rightarrow> electric_state \<Rightarrow> electric_state" where
  "placeCharges c p s =
     s\<lparr>charges :=
         [\<lparr>ch_x = width c * Fin 0.33, ch_y = height c * Fin 0.5, ch_q = or_else (p_q1 p) (Fin 3)\<rparr>,
          \<lparr>ch_x = width c * Fin 0.67, ch_y = height c * Fin 0.5, ch_q = or_else (p_q2 p) (Fin (- 3))\<rparr>]\<rparr>"

text \<open>
  The field at one grid point \<^verbatim>\<open>(gx, gy)\<close> of \<^verbatim>\<open>drawField\<close>: the loop over the charges,
  one charge at a time. The grid itself and the arrows are drawing.
\<close>

definition field_add :: "jsnum \<Rightarrow> jsnum \<Rightarrow> jsnum \<times> jsnum \<Rightarrow> charge \<Rightarrow> jsnum \<times> jsnum" where
  "field_add gx gy E ch =
     (let dx = gx - ch_x ch;
          dy = gy - ch_y ch;
          r2 = dx * dx + dy * dy
      in if r2 < Fin 16 then E
         else (let r3 = Math_pow_1_5 r2
               in (fst E + ch_q ch * dx / r3, snd E + ch_q ch * dy / r3)))"

definition field_at :: "charge list \<Rightarrow> jsnum \<Rightarrow> jsnum \<Rightarrow> jsnum \<times> jsnum" where
  "field_at chs gx gy = foldl (field_add gx gy) (Fin 0, Fin 0) chs"

definition electric_start :: "canvas \<Rightarrow> electric_params \<Rightarrow> electric_state \<Rightarrow> electric_state" where
  "electric_start c p s = (placeCharges c p s)\<lparr>el_running := True\<rparr>"

text \<open>The frame callback \<^verbatim>\<open>timer\<close> redraws the field and changes no variable.\<close>

definition electric_timer :: "electric_state \<Rightarrow> electric_state" where
  "electric_timer s = (if \<not> el_running s then s else s)"

definition electric_pause :: "electric_state \<Rightarrow> electric_state" where
  "electric_pause s = s\<lparr>el_running := False\<rparr>"

definition electric_reset :: "canvas \<Rightarrow> electric_params \<Rightarrow> electric_state \<Rightarrow> electric_state" where
  "electric_reset c p s = placeCharges c p s"

definition electricSim :: "canvas \<Rightarrow> electric_params \<Rightarrow> electric_state" where
  "electricSim c p = electric_start c p \<lparr>el_running = True, charges = []\<rparr>"

section \<open>The analytic summaries of the chart page\<close>

text \<open>
  The chart page reads the query string into an object of strings
  (\<^verbatim>\<open>Object.fromEntries(new URLSearchParams(location.search))\<close>), here a map from names
  to strings, and parses each parameter with \<^verbatim>\<open>parseFloat(...) || default\<close>.

  \<^verbatim>\<open>parseFloat\<close> is ECMAScript's: leading white space is skipped, the longest prefix that
  is a decimal literal (sign, digits, fraction, exponent, or \<^verbatim>\<open>Infinity\<close>) is read, and
  the result is \<^verbatim>\<open>NaN\<close> when there is none. An absent parameter is \<^verbatim>\<open>undefined\<close>, which
  parses to \<^verbatim>\<open>NaN\<close>.
\<close>

type_synonym query = "string \<Rightarrow> string option"

definition is_ws :: "char \<Rightarrow> bool" where
  "is_ws c = (c \<in> set [CHR '' '', CHR 0x09, CHR 0x0A, CHR 0x0B, CHR 0x0C, CHR 0x0D])"

definition is_digit :: "char \<Rightarrow> bool" where
  "is_digit c = (c \<in> set ''0123456789'')"

definition digit_val :: "char \<Rightarrow> nat" where
  "digit_val c = (of_char c :: nat) - 48"

definition digits_val :: "string \<Rightarrow> nat" where
  "digits_val ds = foldl (\<lambda>n c. 10 * n + digit_val c) 0 ds"

fun strip_sign :: "string \<Rightarrow> bool \<times> string" where
  "strip_sign [] = (False, [])"
| "strip_sign (c # cs) =
     (if c = CHR ''-'' then (True, cs) else if c = CHR ''+'' then (False, cs) else (False, c # cs))"

fun strip_dot :: "string \<Rightarrow> string option" where
  "strip_dot [] = None"
| "strip_dot (c # cs) = (if c = CHR ''.'' then Some cs else None)"

fun exponent :: "string \<Rightarrow> int" where
  "exponent [] = 0"
| "exponent (c # cs) =
     (if c = CHR ''e'' \<or> c = CHR ''E''
      then (let ds = takeWhile is_digit (snd (strip_sign cs))
            in if ds = [] then 0
               else if fst (strip_sign cs) then - int (digits_val ds) else int (digits_val ds))
      else 0)"

definition pow10 :: "int \<Rightarrow> real" where
  "pow10 k = (if 0 \<le> k then 10 ^ nat k else 1 / 10 ^ nat (- k))"

definition parseFloat_string :: "string \<Rightarrow> jsnum" where
  "parseFloat_string s =
     (let signed = strip_sign (dropWhile is_ws s);
          neg = fst signed; s2 = snd signed
      in if take 8 s2 = ''Infinity'' then (if neg then NInf else PInf)
         else (let ip = takeWhile is_digit s2;
                   s3 = dropWhile is_digit s2;
                   fp = (case strip_dot s3 of None \<Rightarrow> [] | Some t \<Rightarrow> takeWhile is_digit t);
                   s4 = (case strip_dot s3 of None \<Rightarrow> s3 | Some t \<Rightarrow> dropWhile is_digit t)
               in if ip = [] \<and> fp = [] then NaN
                  else (let mant = real (digits_val ip) + real (digits_val fp) / 10 ^ length fp;
                            v = mant * pow10 (exponent s4)
                        in Fin (if neg then - v else v))))"

fun parseFloat :: "string option \<Rightarrow> jsnum" where
  "parseFloat None = NaN"
| "parseFloat (Some s) = parseFloat_string s"

text \<open>\<^verbatim>\<open>a || b\<close> for a number \<^verbatim>\<open>a\<close> that is not \<^verbatim>\<open>undefined\<close>.\<close>

definition or_num :: "jsnum \<Rightarrow> jsnum \<Rightarrow> jsnum" where
  "or_num a d = (if falsy a then d else a)"

text \<open>
  Each branch of the chart page, up to the numbers it hands to the chart and prints:
  the parameters as read, the derived quantities and the sampled series. The formatting
  with \<^verbatim>\<open>toFixed\<close> and the chart library are left out.
\<close>

record projectile_summary =
  sm_u :: jsnum
  sm_a :: jsnum
  sm_g :: jsnum
  sm_T :: jsnum
  sm_vy :: "jsnum list"
  sm_Rval :: jsnum
  sm_Hval :: jsnum

definition chart_projectile :: "query \<Rightarrow> projectile_summary" where
  "chart_projectile params =
     (let u = or_num (parseFloat (params ''speed'')) (Fin 25);
          a = or_num (parseFloat (params ''angle'')) (Fin 45) * Math_PI / Fin 180;
          g = Fin 9.81;
          T = Fin 2 * u * Math_sin a / g;
          steps = 60
      in \<lparr>sm_u = u, sm_a = a, sm_g = g, sm_T = T,
          sm_vy = map (\<lambda>i. u * Math_sin a - g * (Fin (real i) * (T / Fin (real steps)))) [0..<Suc steps],
          sm_Rval = u * u * Math_sin (Fin 2 * a) / g,
          sm_Hval = u * u * Math_sin a * Math_sin a / (Fin 2 * g)\<rparr>)"

record pendulum_summary =
  sm_L :: jsnum
  sm_period :: jsnum
  sm_theta :: "jsnum list"

definition chart_pendulum :: "query \<Rightarrow> pendulum_summary" where
  "chart_pendulum params =
     (let L = or_num (parseFloat (params ''length'')) (Fin 1.6);
          g = Fin 9.81;
          T = Fin 2 * Math_PI * Math_sqrt (L / g);
          steps = 100
      in \<lparr>sm_L = L, sm_period = T,
          sm_theta = map (\<lambda>i. Math_sin (Fin 2 * Math_PI * (Fin (real i) * (T / Fin (real steps))) / T))
                       [0..<steps]\<rparr>)"

record spring_summary =
  sm_k :: jsnum
  sm_m :: jsnum
  sm_omega :: jsnum
  sm_freq :: jsnum
  sm_x :: "jsnum list"

definition chart_spring :: "query \<Rightarrow> spring_summary" where
  "chart_spring params =
     (let k = or_num (parseFloat (params ''k'')) (Fin 50);
          m = or_num (parseFloat (params ''m'')) (Fin 1.5);
          omega = Math_sqrt (k / m);
          steps = 120
      in \<lparr>sm_k = k, sm_m = m, sm_omega = omega, sm_freq = omega / (Fin 2 * Math_PI),
          sm_x = map (\<lambda>i. Math_cos (omega * (Fin (real i) * Fin 0.02))) [0..<steps]\<rparr>)"

record circular_summary =
  sm_radius :: jsnum
  sm_angular :: jsnum
  sm_turn :: jsnum
  sm_xt :: "jsnum list"

definition chart_circular :: "query \<Rightarrow> circular_summary" where
  "chart_circular params =
     (let radius = or_num (parseFloat (params ''radius'')) (Fin 100);
          omega = or_num (parseFloat (params ''angularSpeed'')) (Fin 1.2);
          T = Fin 2 * Math_PI / omega;
          steps = 120
      in \<lparr>sm_radius = radius, sm_angular = omega, sm_turn = T,
          sm_xt = map (\<lambda>i. radius * Math_cos (omega * (Fin (real i) * (T / Fin (real steps)))))
                    [0..<Suc steps]\<rparr>)"

record collision_summary =
  sm_m1 :: jsnum
  sm_m2 :: jsnum
  sm_u1 :: jsnum
  sm_u2 :: jsnum
  sm_e :: jsnum
  sm_v1p :: jsnum
  sm_v2p :: jsnum

definition chart_collision :: "query \<Rightarrow> collision_summary" where
  "chart_collision params =
     (let m1 = or_num (parseFloat (params ''m1'')) (Fin 2);
          m2 = or_num (parseFloat (params ''m2'')) (Fin 1);
          u1 = or_num (parseFloat (params ''v1'')) (Fin 3);
          u2 = or_num (parseFloat (params ''v2'')) (Fin (- 1));
          e = or_num (parseFloat (params ''e'')) (Fin 1);
          v1p = (m1 * u1 + m2 * u2 + m2 * e * (u2 - u1)) / (m1 + m2);
          v2p = (m1 * u1 + m2 * u2 + m1 * e * (u1 - u2)) / (m1 + m2)
      in \<lparr>sm_m1 = m1, sm_m2 = m2, sm_u1 = u1, sm_u2 = u2, sm_e = e, sm_v1p = v1p, sm_v2p = v2p\<rparr>)"

text \<open>The body of the loop of the electric branch, for the sample number \<^verbatim>\<open>i\<close>.\<close>

definition probe :: "jsnum \<Rightarrow> jsnum \<Rightarrow> nat \<Rightarrow> jsnum" where
  "probe q1 q2 i =
     (let N = 120;
          x = (Fin (real i) / Fin (real (N - 1))) * Fin 1.0;
          cx1 = Fin 0.33; cx2 = Fin 0.67;
          dx1 = x - cx1; dx2 = x - cx2;
          r1 = Math_abs dx1; r2 = Math_abs dx2;
          E1 = (if Fin 0.0001 < r1 then q1 / (r1 * r1) else Fin 0);
          E2 = (if Fin 0.0001 < r2 then q2 / (r2 * r2) else Fin 0)
      in Math_abs E1 + Math_abs E2)"

record electric_summary =
  sm_q1 :: jsnum
  sm_q2 :: jsnum
  sm_Emag :: "jsnum list"

definition chart_electric :: "query \<Rightarrow> electric_summary" where
  "chart_electric params =
     (let q1 = or_num (parseFloat (params ''q1'')) (Fin 3);
          q2 = or_num (parseFloat (params ''q2'')) (Fin (- 3))
      in \<lparr>sm_q1 = q1, sm_q2 = q2, sm_Emag = map (probe q1 q2) [0..<120]\<rparr>)"

datatype summary =
  Projectile projectile_summary
| Pendulum pendulum_summary
| Spring spring_summary
| Circular circular_summary
| Collision collision_summary
| Electric electric_summary
| NoChart

text \<open>\<^verbatim>\<open>params.sim || 'projectile'\<close>, then the chain of comparisons on \<^verbatim>\<open>sim\<close>.\<close>

definition chart :: "query \<Rightarrow> summary" where
  "chart params =
     (let sim = (case params ''sim'' of None \<Rightarrow> ''projectile''
                 | Some k \<Rightarrow> if k = [] then ''projectile'' else k)
      in if sim = ''projectile'' then Projectile (chart_projectile params)
         else if sim = ''pendulum'' then Pendulum (chart_pendulum params)
         else if sim = ''spring'' then Spring (chart_spring params)
         else if sim = ''circular'' then Circular (chart_circular params)
         else if sim = ''collision'' then Collision (chart_collision params)
         else if sim = ''electric'' then Electric (chart_electric params)
         else NoChart)"

section \<open>Quantities the properties are stated in\<close>

text \<open>
  The component of a ball's velocity along a direction \<open>n\<close> and across it, as
  \<^verbatim>\<open>update\<close> computes \<^verbatim>\<open>v1n\<close> and \<^verbatim>\<open>v1t\<close> (with \<^verbatim>\<open>tx = -ny\<close>, \<^verbatim>\<open>ty = nx\<close>).
\<close>

definition normal_velocity :: "jsnum \<times> jsnum \<Rightarrow> ball \<Rightarrow> jsnum" where
  "normal_velocity n b = b_vx b * fst n + b_vy b * snd n"

definition tangent_velocity :: "jsnum \<times> jsnum \<Rightarrow> ball \<Rightarrow> jsnum" where
  "tangent_velocity n b = b_vx b * (- snd n) + b_vy b * fst n"

text \<open>
  The restitution formula in the specification's words, on real numbers:
  \<open>v1n' = (m1 v1n + m2 v2n + m2 e (v2n - v1n)) / (m1 + m2)\<close> and
  \<open>v2n' = (m1 v1n + m2 v2n + m1 e (v1n - v2n)) / (m1 + m2)\<close>.
\<close>

definition post_v1n :: "real \<Rightarrow> real \<Rightarrow> real \<Rightarrow> real \<Rightarrow> real \<Rightarrow> real" where
  "post_v1n m1 m2 e v1n v2n = (m1 * v1n + m2 * v2n + m2 * e * (v2n - v1n)) / (m1 + m2)"

definition post_v2n :: "real \<Rightarrow> real \<Rightarrow> real \<Rightarrow> real \<Rightarrow> real \<Rightarrow> real" where
  "post_v2n m1 m2 e v1n v2n = (m1 * v1n + m2 * v2n + m1 * e * (v1n - v2n)) / (m1 + m2)"

text \<open>
  The circular session after \<open>n\<close> ticks, and the point that tick number \<open>k\<close> records,
  the ticks counted from 0: the entry that the tick pushes last on the trace.
\<close>

definition circular_ticks :: "canvas \<Rightarrow> circular_params \<Rightarrow> nat \<Rightarrow> circular_state" where
  "circular_ticks c p n = (circular_step c p ^^ n) circularSim"

definition recorded_at :: "canvas \<Rightarrow> circular_params \<Rightarrow> nat \<Rightarrow> point" where
  "recorded_at c p k = last (crc_trace (circular_ticks c p (Suc k)))"

text \<open>
  The field of one point source in the specification's words, on real numbers:
  \<open>charge (p - sourcePos) / |p - sourcePos|^3\<close>, and nothing from a source whose squared
  distance to \<open>p\<close> is below 16. \<open>probe_r cx i\<close> is the distance of the \<open>i\<close>-th sample
  of the 1-D probe from the charge at \<open>cx\<close>.
\<close>

definition dist2 :: "real \<Rightarrow> real \<Rightarrow> real \<Rightarrow> real \<Rightarrow> real" where
  "dist2 sx sy gx gy = (gx - sx) * (gx - sx) + (gy - sy) * (gy - sy)"

definition source_field :: "real \<times> real \<times> real \<Rightarrow> real \<times> real \<Rightarrow> real \<times> real" where
  "source_field src pt =
     (let sx = fst src; sy = fst (snd src); q = snd (snd src); gx = fst pt; gy = snd pt
      in if dist2 sx sy gx gy < 16 then (0, 0)
         else (q * (gx - sx) / sqrt (dist2 sx sy gx gy) ^ 3,
               q * (gy - sy) / sqrt (dist2 sx sy gx gy) ^ 3))"

definition probe_r :: "real \<Rightarrow> nat \<Rightarrow> real" where
  "probe_r cx i = \<bar>real i / 119 - cx\<bar>"

section \<open>Arithmetic on finite numbers\<close>

lemma minus_Fin [simp]: "Fin a - Fin b = Fin (a - b)"
  by (simp add: minus_jsnum_def)

lemma divide_Fin_nonzero [simp]: "b \<noteq> 0 \<Longrightarrow> Fin a / Fin b = Fin (a / b)"
  by simp

section \<open>The collision resolver\<close>

lemma minus_NaN [simp]: "a - NaN = NaN" "NaN - a = NaN"
  by (cases a; simp add: minus_jsnum_def)+

lemma unit_normal:
  fixes dx dy :: real
  assumes "d = sqrt (dx * dx + dy * dy)" "d \<noteq> 0"
  shows "(dx / d) * (dx / d) + (dy / d) * (dy / d) = 1"
proof -
  have "0 \<le> dx * dx + dy * dy" by simp
  then have dd: "d * d = dx * dx + dy * dy"
    using assms(1) by simp
  have "(dx / d) * (dx / d) + (dy / d) * (dy / d) = (dx * dx + dy * dy) / (d * d)"
    by (simp add: add_divide_distrib)
  also have "\<dots> = (d * d) / (d * d)" by (simp only: dd)
  also have "\<dots> = 1" using assms(2) by simp
  finally show ?thesis .
qed

lemma touching_after_correction:
  fixes dx dy :: real
  assumes d: "d = sqrt (dx * dx + dy * dy)" and pos: "0 < d" and le: "d \<le> R"
  shows "sqrt ((dx + 2 * (dx / d * ((R - d) / 2))) * (dx + 2 * (dx / d * ((R - d) / 2)))
             + (dy + 2 * (dy / d * ((R - d) / 2))) * (dy + 2 * (dy / d * ((R - d) / 2)))) = R"
proof -
  have ex: "dx + 2 * (dx / d * ((R - d) / 2)) = dx / d * R"
    using pos by (simp add: field_simps)
  have ey: "dy + 2 * (dy / d * ((R - d) / 2)) = dy / d * R"
    using pos by (simp add: field_simps)
  have u: "(dx / d) * (dx / d) + (dy / d) * (dy / d) = 1"
    using unit_normal [OF d] pos by simp
  have "(dx / d * R) * (dx / d * R) + (dy / d * R) * (dy / d * R)
        = ((dx / d) * (dx / d) + (dy / d) * (dy / d)) * (R * R)"
    by (simp add: algebra_simps)
  also have "\<dots> = R * R" using u by simp
  finally have "sqrt ((dx / d * R) * (dx / d * R) + (dy / d * R) * (dy / d * R)) = sqrt (R * R)"
    by simp
  also have "\<dots> = R" using pos le by simp
  finally show ?thesis using ex ey by simp
qed

lemma momentum_conserved:
  assumes "m1 + m2 \<noteq> 0"
  shows "m1 * post_v1n m1 m2 e v1n v2n + m2 * post_v2n m1 m2 e v1n v2n = m1 * v1n + m2 * v2n"
proof -
  have "m1 * post_v1n m1 m2 e v1n v2n + m2 * post_v2n m1 m2 e v1n v2n
        = (m1 * (m1 * v1n + m2 * v2n + m2 * e * (v2n - v1n))
           + m2 * (m1 * v1n + m2 * v2n + m1 * e * (v1n - v2n))) / (m1 + m2)"
    unfolding post_v1n_def post_v2n_def
    by (simp only: times_divide_eq_right add_divide_distrib [symmetric])
  also have "m1 * (m1 * v1n + m2 * v2n + m2 * e * (v2n - v1n))
           + m2 * (m1 * v1n + m2 * v2n + m1 * e * (v1n - v2n)) = (m1 * v1n + m2 * v2n) * (m1 + m2)"
    by (simp add: algebra_simps)
  finally show ?thesis using assms by simp
qed

lemma energy_conserved:
  assumes "m1 + m2 \<noteq> 0"
  shows "m1 * (post_v1n m1 m2 1 v1n v2n * post_v1n m1 m2 1 v1n v2n) / 2
         + m2 * (post_v2n m1 m2 1 v1n v2n * post_v2n m1 m2 1 v1n v2n) / 2
         = m1 * (v1n * v1n) / 2 + m2 * (v2n * v2n) / 2"
proof -
  define s where "s = m1 + m2"
  define P1 where "P1 = post_v1n m1 m2 1 v1n v2n"
  define P2 where "P2 = post_v2n m1 m2 1 v1n v2n"
  have s: "s \<noteq> 0" using assms by (simp add: s_def)
  have p1: "P1 = ((m1 - m2) * v1n + 2 * m2 * v2n) / s"
    by (simp add: P1_def post_v1n_def s_def algebra_simps)
  have p2: "P2 = ((m2 - m1) * v2n + 2 * m1 * v1n) / s"
    by (simp add: P2_def post_v2n_def s_def algebra_simps)
  have "m1 * ((m1 - m2) * v1n + 2 * m2 * v2n)\<^sup>2 + m2 * ((m2 - m1) * v2n + 2 * m1 * v1n)\<^sup>2
        = (m1 * v1n\<^sup>2 + m2 * v2n\<^sup>2) * s\<^sup>2"
    by (simp add: s_def power2_eq_square algebra_simps)
  then have "(m1 * ((m1 - m2) * v1n + 2 * m2 * v2n)\<^sup>2 + m2 * ((m2 - m1) * v2n + 2 * m1 * v1n)\<^sup>2) / s\<^sup>2
        = m1 * v1n\<^sup>2 + m2 * v2n\<^sup>2"
    using s by simp
  then have "m1 * (((m1 - m2) * v1n + 2 * m2 * v2n) / s)\<^sup>2 + m2 * (((m2 - m1) * v2n + 2 * m1 * v1n) / s)\<^sup>2
        = m1 * v1n\<^sup>2 + m2 * v2n\<^sup>2"
    by (simp only: power_divide times_divide_eq_right add_divide_distrib [symmetric])
  then have key: "m1 * (P1 * P1) + m2 * (P2 * P2) = m1 * (v1n * v1n) + m2 * (v2n * v2n)"
    by (simp only: p1 [symmetric] p2 [symmetric] power2_eq_square)
  have "m1 * (P1 * P1) / 2 + m2 * (P2 * P2) / 2 = (m1 * (P1 * P1) + m2 * (P2 * P2)) / 2"
    by (simp only: add_divide_distrib)
  also have "\<dots> = (m1 * (v1n * v1n) + m2 * (v2n * v2n)) / 2"
    by (simp only: key)
  also have "\<dots> = m1 * (v1n * v1n) / 2 + m2 * (v2n * v2n) / 2"
    by (simp only: add_divide_distrib)
  finally show ?thesis by (simp only: P1_def P2_def)
qed

lemma normal_component:
  fixes nx ny :: real
  assumes "nx * nx + ny * ny = 1"
  shows "(p * nx + q * (- ny)) * nx + (p * ny + q * nx) * ny = p"
    and "(p * nx + q * (- ny)) * (- ny) + (p * ny + q * nx) * nx = q"
proof -
  have "(p * nx + q * (- ny)) * nx + (p * ny + q * nx) * ny = p * (nx * nx + ny * ny)"
    by (simp add: algebra_simps)
  then show "(p * nx + q * (- ny)) * nx + (p * ny + q * nx) * ny = p"
    using assms by simp
  have "(p * nx + q * (- ny)) * (- ny) + (p * ny + q * nx) * nx = q * (nx * nx + ny * ny)"
    by (simp add: algebra_simps)
  then show "(p * nx + q * (- ny)) * (- ny) + (p * ny + q * nx) * nx = q"
    using assms by simp
qed

lemma collide_positions:
  assumes a: "b_x a = Fin x1" "b_y a = Fin y1" "b_r a = Fin r1"
    and b: "b_x b = Fin x2" "b_y b = Fin y2" "b_r b = Fin r2"
    and d: "d = sqrt ((x2 - x1) * (x2 - x1) + (y2 - y1) * (y2 - y1))"
    and pos: "0 < d" and le: "d \<le> r1 + r2"
  shows "b_x (fst (collide pe (a, b))) = Fin (x1 - (x2 - x1) / d * ((r1 + r2 - d) / 2))"
    and "b_y (fst (collide pe (a, b))) = Fin (y1 - (y2 - y1) / d * ((r1 + r2 - d) / 2))"
    and "b_x (snd (collide pe (a, b))) = Fin (x2 + (x2 - x1) / d * ((r1 + r2 - d) / 2))"
    and "b_y (snd (collide pe (a, b))) = Fin (y2 + (y2 - y1) / d * ((r1 + r2 - d) / 2))"
  using a b pos le d [symmetric] by (simp_all add: collide_def Let_def)

text \<open>
  Claim C10. When the branch for a collision of the two balls runs with a centre distance
  \<open>d\<close>, \<open>0 < d \<le> r1 + r2\<close>, the first ball is moved by \<open>(r1 + r2 - d) / 2\<close> against the
  normal and the second by as much along it, and afterwards the centres are exactly
  \<open>r1 + r2\<close> apart (in exact arithmetic).
\<close>

theorem collide_leaves_bodies_touching:
  assumes a: "b_x a = Fin x1" "b_y a = Fin y1" "b_r a = Fin r1"
    and b: "b_x b = Fin x2" "b_y b = Fin y2" "b_r b = Fin r2"
    and d: "d = sqrt ((x2 - x1) * (x2 - x1) + (y2 - y1) * (y2 - y1))"
    and pos: "0 < d" and le: "d \<le> r1 + r2"
  shows "b_x (fst (collide pe (a, b))) = Fin (x1 - (x2 - x1) / d * ((r1 + r2 - d) / 2))
       \<and> b_y (fst (collide pe (a, b))) = Fin (y1 - (y2 - y1) / d * ((r1 + r2 - d) / 2))
       \<and> b_x (snd (collide pe (a, b))) = Fin (x2 + (x2 - x1) / d * ((r1 + r2 - d) / 2))
       \<and> b_y (snd (collide pe (a, b))) = Fin (y2 + (y2 - y1) / d * ((r1 + r2 - d) / 2))
       \<and> Math_hypot (b_x (snd (collide pe (a, b))) - b_x (fst (collide pe (a, b))))
                    (b_y (snd (collide pe (a, b))) - b_y (fst (collide pe (a, b)))) = Fin (r1 + r2)"
proof -
  note p = collide_positions [OF a b d pos le, of pe]
  let ?c = "(r1 + r2 - d) / 2"
  have ex: "x2 + (x2 - x1) / d * ?c - (x1 - (x2 - x1) / d * ?c) = (x2 - x1) + 2 * ((x2 - x1) / d * ?c)"
    by simp
  have ey: "y2 + (y2 - y1) / d * ?c - (y1 - (y2 - y1) / d * ?c) = (y2 - y1) + 2 * ((y2 - y1) / d * ?c)"
    by simp
  have "Math_hypot (b_x (snd (collide pe (a, b))) - b_x (fst (collide pe (a, b))))
                   (b_y (snd (collide pe (a, b))) - b_y (fst (collide pe (a, b)))) = Fin (r1 + r2)"
    unfolding p minus_Fin Math_hypot.simps ex ey
    using touching_after_correction [OF d pos le] by simp
  then show ?thesis using p by simp
qed

theorem collide_leaves_bodies_touching_witness:
  "Math_hypot
     (b_x (snd (collide None
        (\<lparr>b_x = Fin 0, b_y = Fin 0, b_vx = Fin 3, b_vy = Fin 0, b_r = Fin 1, b_m = Fin 2\<rparr>,
         \<lparr>b_x = Fin 1, b_y = Fin 0, b_vx = Fin (- 1), b_vy = Fin 0, b_r = Fin 1, b_m = Fin 1\<rparr>)))
      - b_x (fst (collide None
        (\<lparr>b_x = Fin 0, b_y = Fin 0, b_vx = Fin 3, b_vy = Fin 0, b_r = Fin 1, b_m = Fin 2\<rparr>,
         \<lparr>b_x = Fin 1, b_y = Fin 0, b_vx = Fin (- 1), b_vy = Fin 0, b_r = Fin 1, b_m = Fin 1\<rparr>))))
     (b_y (snd (collide None
        (\<lparr>b_x = Fin 0, b_y = Fin 0, b_vx = Fin 3, b_vy = Fin 0, b_r = Fin 1, b_m = Fin 2\<rparr>,
         \<lparr>b_x = Fin 1, b_y = Fin 0, b_vx = Fin (- 1), b_vy = Fin 0, b_r = Fin 1, b_m = Fin 1\<rparr>)))
      - b_y (fst (collide None
        (\<lparr>b_x = Fin 0, b_y = Fin 0, b_vx = Fin 3, b_vy = Fin 0, b_r = Fin 1, b_m = Fin 2\<rparr>,
         \<lparr>b_x = Fin 1, b_y = Fin 0, b_vx = Fin (- 1), b_vy = Fin 0, b_r = Fin 1, b_m = Fin 1\<rparr>))))
   = Fin 2"
  using collide_leaves_bodies_touching
    [of "\<lparr>b_x = Fin 0, b_y = Fin 0, b_vx = Fin 3, b_vy = Fin 0, b_r = Fin 1, b_m = Fin 2\<rparr>" 0 0 1
        "\<lparr>b_x = Fin 1, b_y = Fin 0, b_vx = Fin (- 1), b_vy = Fin 0, b_r = Fin 1, b_m = Fin 1\<rparr>" 1 0 1
        1 None]
  by simp

lemma collide_velocities:
  assumes d: "d = sqrt ((x2 - x1) * (x2 - x1) + (y2 - y1) * (y2 - y1))"
    and pos: "0 < d" and le: "d \<le> r1 + r2" and m: "m1 + m2 \<noteq> 0"
    and e: "restitution pe = Fin e"
    and nx: "nx = (x2 - x1) / d" and ny: "ny = (y2 - y1) / d"
    and v1n: "v1n = vx1 * nx + vy1 * ny" and v2n: "v2n = vx2 * nx + vy2 * ny"
    and v1t: "v1t = vx1 * (- ny) + vy1 * nx" and v2t: "v2t = vx2 * (- ny) + vy2 * nx"
    and a: "a = \<lparr>b_x = Fin x1, b_y = Fin y1, b_vx = Fin vx1, b_vy = Fin vy1, b_r = Fin r1, b_m = Fin m1\<rparr>"
    and b: "b = \<lparr>b_x = Fin x2, b_y = Fin y2, b_vx = Fin vx2, b_vy = Fin vy2, b_r = Fin r2, b_m = Fin m2\<rparr>"
  shows "b_vx (fst (collide pe (a, b))) = Fin (post_v1n m1 m2 e v1n v2n * nx + v1t * (- ny))"
    and "b_vy (fst (collide pe (a, b))) = Fin (post_v1n m1 m2 e v1n v2n * ny + v1t * nx)"
    and "b_vx (snd (collide pe (a, b))) = Fin (post_v2n m1 m2 e v1n v2n * nx + v2t * (- ny))"
    and "b_vy (snd (collide pe (a, b))) = Fin (post_v2n m1 m2 e v1n v2n * ny + v2t * nx)"
  using pos le m e d [symmetric]
  by (simp_all add: a b collide_def Let_def nx ny v1n v2n v1t v2t post_v1n_def post_v2n_def)

text \<open>
  Claim C1. For two balls with positive masses whose centres are \<open>d\<close> apart,
  \<open>0 < d \<le> r1 + r2\<close>, with \<open>n\<close> the unit normal from the first to the second, \<open>v1n\<close> and
  \<open>v2n\<close> the normal components before the collision and \<open>e\<close> the restitution in effect:
  after \<^verbatim>\<open>update\<close>'s collision branch the normal components are
  \<open>(m1 v1n + m2 v2n + m2 e (v2n - v1n)) / (m1 + m2)\<close> and
  \<open>(m1 v1n + m2 v2n + m1 e (v1n - v2n)) / (m1 + m2)\<close>, the tangential components are
  unchanged, the momentum along the normal is conserved for every \<open>e\<close>, and for \<open>e = 1\<close>
  so is the kinetic energy along the normal.
\<close>

theorem collide_normal_restitution:
  fixes x1 y1 vx1 vy1 r1 m1 x2 y2 vx2 vy2 r2 m2 d e nx ny v1n v2n :: real
  assumes a: "a = \<lparr>b_x = Fin x1, b_y = Fin y1, b_vx = Fin vx1, b_vy = Fin vy1, b_r = Fin r1, b_m = Fin m1\<rparr>"
    and b: "b = \<lparr>b_x = Fin x2, b_y = Fin y2, b_vx = Fin vx2, b_vy = Fin vy2, b_r = Fin r2, b_m = Fin m2\<rparr>"
    and m: "0 < m1" "0 < m2"
    and d: "d = sqrt ((x2 - x1) * (x2 - x1) + (y2 - y1) * (y2 - y1))"
    and pos: "0 < d" and le: "d \<le> r1 + r2"
    and e: "restitution pe = Fin e"
    and nx: "nx = (x2 - x1) / d" and ny: "ny = (y2 - y1) / d"
    and v1n: "normal_velocity (Fin nx, Fin ny) a = Fin v1n"
    and v2n: "normal_velocity (Fin nx, Fin ny) b = Fin v2n"
    and a': "a' = fst (collide pe (a, b))" and b': "b' = snd (collide pe (a, b))"
  shows "normal_velocity (Fin nx, Fin ny) a' = Fin ((m1 * v1n + m2 * v2n + m2 * e * (v2n - v1n)) / (m1 + m2))
       \<and> normal_velocity (Fin nx, Fin ny) b' = Fin ((m1 * v1n + m2 * v2n + m1 * e * (v1n - v2n)) / (m1 + m2))
       \<and> tangent_velocity (Fin nx, Fin ny) a' = tangent_velocity (Fin nx, Fin ny) a
       \<and> tangent_velocity (Fin nx, Fin ny) b' = tangent_velocity (Fin nx, Fin ny) b
       \<and> Fin m1 * normal_velocity (Fin nx, Fin ny) a' + Fin m2 * normal_velocity (Fin nx, Fin ny) b'
           = Fin m1 * normal_velocity (Fin nx, Fin ny) a + Fin m2 * normal_velocity (Fin nx, Fin ny) b
       \<and> (e = 1 \<longrightarrow>
            Fin m1 * (normal_velocity (Fin nx, Fin ny) a' * normal_velocity (Fin nx, Fin ny) a') / Fin 2
            + Fin m2 * (normal_velocity (Fin nx, Fin ny) b' * normal_velocity (Fin nx, Fin ny) b') / Fin 2
            = Fin m1 * (normal_velocity (Fin nx, Fin ny) a * normal_velocity (Fin nx, Fin ny) a) / Fin 2
            + Fin m2 * (normal_velocity (Fin nx, Fin ny) b * normal_velocity (Fin nx, Fin ny) b) / Fin 2)"
proof -
  have mm: "m1 + m2 \<noteq> 0" using m by simp
  have v1: "v1n = vx1 * nx + vy1 * ny" using v1n by (simp add: normal_velocity_def a)
  have v2: "v2n = vx2 * nx + vy2 * ny" using v2n by (simp add: normal_velocity_def b)
  note vel = collide_velocities [OF d pos le mm e nx ny v1 v2 refl refl a b]
  have u: "nx * nx + ny * ny = 1"
    unfolding nx ny using unit_normal [OF d] pos by simp
  note nc = normal_component [OF u]
  have n1: "normal_velocity (Fin nx, Fin ny) a' = Fin (post_v1n m1 m2 e v1n v2n)"
    unfolding normal_velocity_def a' vel
    by (simp only: fst_conv snd_conv times_jsnum.simps plus_jsnum.simps nc)
  have n2: "normal_velocity (Fin nx, Fin ny) b' = Fin (post_v2n m1 m2 e v1n v2n)"
    unfolding normal_velocity_def b' vel
    by (simp only: fst_conv snd_conv times_jsnum.simps plus_jsnum.simps nc)
  have t1: "tangent_velocity (Fin nx, Fin ny) a' = Fin (vx1 * (- ny) + vy1 * nx)"
    unfolding tangent_velocity_def a' vel
    by (simp only: fst_conv snd_conv uminus_jsnum.simps times_jsnum.simps plus_jsnum.simps nc)
  have t1': "tangent_velocity (Fin nx, Fin ny) a = Fin (vx1 * (- ny) + vy1 * nx)"
    unfolding tangent_velocity_def a
    by (simp only: ball.simps fst_conv snd_conv uminus_jsnum.simps times_jsnum.simps plus_jsnum.simps)
  have t2: "tangent_velocity (Fin nx, Fin ny) b' = Fin (vx2 * (- ny) + vy2 * nx)"
    unfolding tangent_velocity_def b' vel
    by (simp only: fst_conv snd_conv uminus_jsnum.simps times_jsnum.simps plus_jsnum.simps nc)
  have t2': "tangent_velocity (Fin nx, Fin ny) b = Fin (vx2 * (- ny) + vy2 * nx)"
    unfolding tangent_velocity_def b
    by (simp only: ball.simps fst_conv snd_conv uminus_jsnum.simps times_jsnum.simps plus_jsnum.simps)
  have mom: "Fin m1 * normal_velocity (Fin nx, Fin ny) a' + Fin m2 * normal_velocity (Fin nx, Fin ny) b'
           = Fin m1 * normal_velocity (Fin nx, Fin ny) a + Fin m2 * normal_velocity (Fin nx, Fin ny) b"
    unfolding n1 n2 v1n v2n by (simp add: momentum_conserved [OF mm])
  have en: "Fin m1 * (normal_velocity (Fin nx, Fin ny) a' * normal_velocity (Fin nx, Fin ny) a') / Fin 2
            + Fin m2 * (normal_velocity (Fin nx, Fin ny) b' * normal_velocity (Fin nx, Fin ny) b') / Fin 2
            = Fin m1 * (normal_velocity (Fin nx, Fin ny) a * normal_velocity (Fin nx, Fin ny) a) / Fin 2
            + Fin m2 * (normal_velocity (Fin nx, Fin ny) b * normal_velocity (Fin nx, Fin ny) b) / Fin 2"
    if "e = 1"
    unfolding n1 n2 v1n v2n that using energy_conserved [OF mm, of v1n v2n] by simp
  show ?thesis
  proof (intro conjI impI)
    show "normal_velocity (Fin nx, Fin ny) a' = Fin ((m1 * v1n + m2 * v2n + m2 * e * (v2n - v1n)) / (m1 + m2))"
      using n1 by (simp only: post_v1n_def)
    show "normal_velocity (Fin nx, Fin ny) b' = Fin ((m1 * v1n + m2 * v2n + m1 * e * (v1n - v2n)) / (m1 + m2))"
      using n2 by (simp only: post_v2n_def)
    show "tangent_velocity (Fin nx, Fin ny) a' = tangent_velocity (Fin nx, Fin ny) a"
      by (simp only: t1 t1')
    show "tangent_velocity (Fin nx, Fin ny) b' = tangent_velocity (Fin nx, Fin ny) b"
      by (simp only: t2 t2')
  qed (use mom en in blast)+
qed

theorem collide_normal_restitution_witness:
  "(let n = (Fin 1, Fin 0);
        bb = collide (Some (Fin 1))
              (\<lparr>b_x = Fin 0, b_y = Fin 0, b_vx = Fin 3, b_vy = Fin 0, b_r = Fin 1, b_m = Fin 2\<rparr>,
               \<lparr>b_x = Fin 1, b_y = Fin 0, b_vx = Fin (- 1), b_vy = Fin 0, b_r = Fin 1, b_m = Fin 1\<rparr>)
    in normal_velocity n (fst bb) = Fin (1 / 3)
     \<and> normal_velocity n (snd bb) = Fin (13 / 3)
     \<and> tangent_velocity n (fst bb) = Fin 0
     \<and> tangent_velocity n (snd bb) = Fin 0
     \<and> Fin 2 * normal_velocity n (fst bb) + Fin 1 * normal_velocity n (snd bb) = Fin 5
     \<and> Fin 2 * (normal_velocity n (fst bb) * normal_velocity n (fst bb)) / Fin 2
         + Fin 1 * (normal_velocity n (snd bb) * normal_velocity n (snd bb)) / Fin 2 = Fin (19 / 2))"
  using collide_normal_restitution
    [where a = "\<lparr>b_x = Fin 0, b_y = Fin 0, b_vx = Fin 3, b_vy = Fin 0, b_r = Fin 1, b_m = Fin 2\<rparr>"
       and b = "\<lparr>b_x = Fin 1, b_y = Fin 0, b_vx = Fin (- 1), b_vy = Fin 0, b_r = Fin 1, b_m = Fin 1\<rparr>"
       and ?x1.0 = 0 and ?y1.0 = 0 and ?vx1.0 = 3 and ?vy1.0 = 0 and ?r1.0 = 1 and ?m1.0 = 2
       and ?x2.0 = 1 and ?y2.0 = 0 and ?vx2.0 = "- 1" and ?vy2.0 = 0 and ?r2.0 = 1 and ?m2.0 = 1
       and d = 1 and pe = "Some (Fin 1)" and e = 1 and nx = 1 and ny = 0 and ?v1n.0 = 3 and ?v2n.0 = "- 1",
     OF refl refl _ _ _ _ _ _ _ _ _ _ refl refl]
  by (simp add: restitution_def normal_velocity_def tangent_velocity_def Let_def)

section \<open>The restitution coefficient and the parameters of the chart page\<close>

lemmas parse_defs = parseFloat_string_def is_ws_def is_digit_def digit_val_def digits_val_def pow10_def

lemma restitution_clamps: "restitution (Some (Fin e)) = Fin (max 0 (min 1 e))"
  by (simp add: restitution_def max_def min_def)

lemma restitution_default: "restitution None = Fin 1"
  by (simp add: restitution_def)

lemma collide_restitution_cong: "restitution pe = restitution pe' \<Longrightarrow> collide pe bb = collide pe' bb"
  unfolding collide_def by (simp only:)

lemma update_restitution_clamped:
  "update dt c (p\<lparr>p_e := Some (Fin e)\<rparr>) s = update dt c (p\<lparr>p_e := Some (Fin (max 0 (min 1 e)))\<rparr>) s"
proof -
  have "restitution (Some (Fin e)) = restitution (Some (Fin (max 0 (min 1 e))))"
    by (simp add: restitution_clamps max_def min_def)
  then show ?thesis
    by (simp add: update_def collide_restitution_cong [of "Some (Fin e)" "Some (Fin (max 0 (min 1 e)))"])
qed

text \<open>
  Claim C2. The resolver clamps the restitution (\<open>update_restitution_clamped\<close> above):
  a parameter \<open>e\<close> acts as \<open>max 0 (min 1 e)\<close>. The chart page does not: for the query
  \<^verbatim>\<open>sim=collision&m1=2&m2=1&v1=3&v2=-1\<close>, \<^verbatim>\<open>e=1.5\<close> gives the final velocities
  \<open>-1/3\<close> and \<open>17/3\<close> where \<^verbatim>\<open>e=1\<close> gives \<open>1/3\<close> and \<open>13/3\<close>, and \<^verbatim>\<open>e=-0.3\<close> is used as
  it stands.
\<close>

theorem chart_collision_restitution_unclamped:
  "chart [''sim'' \<mapsto> ''collision'', ''m1'' \<mapsto> ''2'', ''m2'' \<mapsto> ''1'', ''v1'' \<mapsto> ''3'',
          ''v2'' \<mapsto> ''-1'', ''e'' \<mapsto> ''1.5'']
     = Collision \<lparr>sm_m1 = Fin 2, sm_m2 = Fin 1, sm_u1 = Fin 3, sm_u2 = Fin (- 1), sm_e = Fin (3 / 2),
                  sm_v1p = Fin (- (1 / 3)), sm_v2p = Fin (17 / 3)\<rparr>
   \<and> chart [''sim'' \<mapsto> ''collision'', ''m1'' \<mapsto> ''2'', ''m2'' \<mapsto> ''1'', ''v1'' \<mapsto> ''3'',
          ''v2'' \<mapsto> ''-1'', ''e'' \<mapsto> ''1'']
     = Collision \<lparr>sm_m1 = Fin 2, sm_m2 = Fin 1, sm_u1 = Fin 3, sm_u2 = Fin (- 1), sm_e = Fin 1,
                  sm_v1p = Fin (1 / 3), sm_v2p = Fin (13 / 3)\<rparr>
   \<and> chart [''sim'' \<mapsto> ''collision'', ''m1'' \<mapsto> ''2'', ''m2'' \<mapsto> ''1'', ''v1'' \<mapsto> ''3'',
          ''v2'' \<mapsto> ''-1'', ''e'' \<mapsto> ''-0.3'']
     = Collision \<lparr>sm_m1 = Fin 2, sm_m2 = Fin 1, sm_u1 = Fin 3, sm_u2 = Fin (- 1), sm_e = Fin (- (3 / 10)),
                  sm_v1p = Fin (31 / 15), sm_v2p = Fin (13 / 15)\<rparr>"
  by (simp add: chart_def chart_collision_def or_num_def falsy_def parse_defs Let_def)

lemma chart_collision_restitution_read:
  "sm_e (chart_collision params)
     = (if parseFloat (params ''e'') = Fin 0 \<or> parseFloat (params ''e'') = NaN then Fin 1
        else parseFloat (params ''e''))"
  by (simp add: chart_collision_def or_num_def falsy_def Let_def)

text \<open>
  Claim C9. The chart page reads a parameter as \<^verbatim>\<open>parseFloat(...) || default\<close>, so the
  default replaces a supplied zero as well: \<^verbatim>\<open>e=0\<close> is charted with restitution 1 and
  \<^verbatim>\<open>angle=0\<close> with 45 degrees; the gravitational acceleration is the constant 9.81
  whatever the query says.
\<close>

theorem chart_zero_parameter_replaced:
  "chart [''sim'' \<mapsto> ''collision'', ''m1'' \<mapsto> ''2'', ''m2'' \<mapsto> ''1'', ''v1'' \<mapsto> ''3'',
          ''v2'' \<mapsto> ''-1'', ''e'' \<mapsto> ''0'']
     = Collision \<lparr>sm_m1 = Fin 2, sm_m2 = Fin 1, sm_u1 = Fin 3, sm_u2 = Fin (- 1), sm_e = Fin 1,
                  sm_v1p = Fin (1 / 3), sm_v2p = Fin (13 / 3)\<rparr>
   \<and> sm_a (chart_projectile [''sim'' \<mapsto> ''projectile'', ''speed'' \<mapsto> ''25'', ''angle'' \<mapsto> ''0''])
     = Fin (45 * pi / 180)
   \<and> sm_g (chart_projectile [''sim'' \<mapsto> ''projectile'', ''speed'' \<mapsto> ''25'', ''angle'' \<mapsto> ''30'', ''g'' \<mapsto> ''1.62''])
     = Fin 9.81"
  by (simp add: chart_def chart_collision_def chart_projectile_def Math_PI_def or_num_def falsy_def parse_defs Let_def)

text \<open>
  Claim C5. On a 300 by 360 canvas with both radii 150 the wall tests put both centres
  at (150, 180) in the first tick; the centre distance is 0, the normal is \<open>0 / 0\<close>, and
  the positions and velocities of both balls are \<^verbatim>\<open>NaN\<close> after the tick.
\<close>

theorem coincident_centres_give_NaN:
  "collision_step \<lparr>width = Fin 300, height = Fin 360\<rparr>
     \<lparr>p_m1 = Some (Fin 2), p_m2 = Some (Fin 1), p_v1 = Some (Fin 3), p_v2 = Some (Fin (- 1)),
      p_r1 = Some (Fin 150), p_r2 = Some (Fin 150), p_e = Some (Fin 1)\<rparr>
     (collisionSim \<lparr>width = Fin 300, height = Fin 360\<rparr>
        \<lparr>p_m1 = Some (Fin 2), p_m2 = Some (Fin 1), p_v1 = Some (Fin 3), p_v2 = Some (Fin (- 1)),
         p_r1 = Some (Fin 150), p_r2 = Some (Fin 150), p_e = Some (Fin 1)\<rparr>)
   = \<lparr>col_running = True,
      ball1 = \<lparr>b_x = NaN, b_y = NaN, b_vx = NaN, b_vy = NaN, b_r = Fin 150, b_m = Fin 2\<rparr>,
      ball2 = \<lparr>b_x = NaN, b_y = NaN, b_vx = NaN, b_vy = NaN, b_r = Fin 150, b_m = Fin 1\<rparr>\<rparr>"
  by (simp add: collision_step_def collisionSim_def placeInitial_def update_def integrate_def
      wall_bounce_def collide_def Let_def pxScale_def falsy_def restitution_def)

section \<open>The trace of the circular motion\<close>

lemma circular_ticks_Suc: "circular_ticks c p (Suc n) = circular_step c p (circular_ticks c p n)"
  by (simp add: circular_ticks_def)

lemma circular_ticks_running: "crc_running (circular_ticks c p n)"
proof (induction n)
  case 0
  show ?case by (simp add: circular_ticks_def circularSim_def circular_start_def)
next
  case (Suc n)
  then show ?case
    by (simp add: circular_ticks_Suc circular_step_def circular_draw_def Let_def)
qed

lemma circular_trace_Suc:
  "crc_trace (circular_ticks c p (Suc n)) =
     (let pushed = crc_trace (circular_ticks c p n)
                     @ [circular_point c p (crc_angle (circular_ticks c p (Suc n)))]
      in if 120 < length pushed then tl pushed else pushed)"
  using circular_ticks_running [of c p n]
  by (simp add: circular_ticks_Suc circular_step_def circular_draw_def Let_def maxTrace_def)

lemma circular_trace_window:
  "crc_trace (circular_ticks c p n)
     = map (\<lambda>k. circular_point c p (crc_angle (circular_ticks c p (Suc k)))) [n - 120..<n]"
proof (induction n)
  case 0
  show ?case by (simp add: circular_ticks_def circularSim_def circular_start_def)
next
  case (Suc n)
  let ?pt = "\<lambda>k. circular_point c p (crc_angle (circular_ticks c p (Suc k)))"
  have pushed: "crc_trace (circular_ticks c p n) @ [?pt n] = map ?pt [n - 120..<Suc n]"
    using Suc.IH by simp
  show ?case
  proof (cases "120 \<le> n")
    case True
    then have len: "length (map ?pt [n - 120..<Suc n]) = 121" by simp
    have shift: "Suc (n - 120) = Suc n - 120" using True by simp
    have "tl (map ?pt [n - 120..<Suc n]) = map ?pt [Suc n - 120..<Suc n]"
      by (simp only: map_tl [symmetric] tl_upt shift)
    then show ?thesis
      unfolding circular_trace_Suc pushed Let_def using len by simp
  next
    case False
    then have len: "length (map ?pt [n - 120..<Suc n]) \<le> 120" by simp
    have "[n - 120..<Suc n] = [Suc n - 120..<Suc n]" using False by simp
    then show ?thesis
      unfolding circular_trace_Suc pushed Let_def using len by simp
  qed
qed

lemma recorded_at_point:
  "recorded_at c p k = circular_point c p (crc_angle (circular_ticks c p (Suc k)))"
  by (simp add: recorded_at_def circular_trace_window [of c p "Suc k"] del: upt_Suc) (simp add: last_map)

text \<open>
  Claim C7. After any number \<open>n\<close> of ticks of a new circular session the trace holds
  \<open>min n 120\<close> points, never more than 120; after 200 ticks it holds 120 and its oldest
  point is the one recorded at tick 80 (ticks counted from 0, so the 81st tick): the
  trace is the points of the last 120 ticks in order, the older ones dropped first.
\<close>

theorem circular_trace_bounded_fifo:
  "length (crc_trace (circular_ticks c p n)) \<le> 120
   \<and> length (crc_trace (circular_ticks c p n)) = min n 120
   \<and> length (crc_trace (circular_ticks c p 200)) = 120
   \<and> hd (crc_trace (circular_ticks c p 200)) = recorded_at c p 80
   \<and> crc_trace (circular_ticks c p n) = map (recorded_at c p) [n - 120..<n]"
proof -
  have w: "crc_trace (circular_ticks c p m) = map (recorded_at c p) [m - 120..<m]" for m
    by (simp add: circular_trace_window recorded_at_point)
  have "hd (crc_trace (circular_ticks c p 200)) = recorded_at c p 80"
    unfolding w by (simp add: hd_map upt_conv_Cons del: upt_Suc)
  moreover have "length (crc_trace (circular_ticks c p m)) = min m 120" for m
    unfolding w by simp
  ultimately show ?thesis using w by simp
qed

lemma circular_draw_bound:
  "length (crc_trace s) \<le> 120 \<Longrightarrow> length (crc_trace (circular_draw c p s)) \<le> 120"
  by (simp add: circular_draw_def Let_def maxTrace_def)

lemma circular_step_bound:
  "length (crc_trace s) \<le> 120 \<Longrightarrow> length (crc_trace (circular_step c p s)) \<le> 120"
  by (simp add: circular_step_def circular_draw_bound)

lemma circular_reset_bound: "length (crc_trace (circular_reset c p s)) \<le> 120"
  by (simp add: circular_reset_def circular_draw_bound)

section \<open>Pausing\<close>

lemma projectile_paused_tick: "projectile_step dt (projectile_pause s) = projectile_pause s"
  by (simp add: projectile_step_def projectile_pause_def)

lemma projectile_pause_state: "prj_t (projectile_pause s) = prj_t s"
  by (simp add: projectile_pause_def)

lemma circular_paused_tick: "circular_step c p (circular_pause s) = circular_pause s"
  by (simp add: circular_step_def circular_pause_def)

lemma circular_pause_state:
  "crc_angle (circular_pause s) = crc_angle s \<and> crc_trace (circular_pause s) = crc_trace s"
  by (simp add: circular_pause_def)

lemma collision_paused_tick: "collision_step c p (collision_pause s) = collision_pause s"
  by (simp add: collision_step_def collision_pause_def)

lemma collision_pause_state:
  "ball1 (collision_pause s) = ball1 s \<and> ball2 (collision_pause s) = ball2 s"
  by (simp add: collision_pause_def)

lemma electric_paused_tick: "electric_timer (electric_pause s) = electric_pause s"
  by (simp add: electric_timer_def)

lemma electric_pause_state: "charges (electric_pause s) = charges s"
  by (simp add: electric_pause_def)

lemma paused_ticks:
  "(projectile_step dt ^^ n) (projectile_pause s1) = projectile_pause s1"
  "(circular_step c p2 ^^ n) (circular_pause s2) = circular_pause s2"
  "(collision_step c p3 ^^ n) (collision_pause s3) = collision_pause s3"
  "(electric_timer ^^ n) (electric_pause s4) = electric_pause s4"
  by (induction n) (simp_all add: projectile_paused_tick circular_paused_tick collision_paused_tick
      electric_paused_tick funpow_swap1)

text \<open>
  Claim C3. In the projectile, circular, collision and electric simulations a tick after
  \<^verbatim>\<open>pause()\<close> changes nothing, and \<^verbatim>\<open>pause()\<close> changes the flag only (the lemmas
  above). The pendulum's and the spring's \<^verbatim>\<open>pause()\<close> has an empty body: the flag stays
  true and the next tick advances the angle, the position, the velocity and the time.
\<close>

theorem pendulum_and_spring_tick_after_pause:
  "pendulum_step \<lparr>pnd_length = Fin 1.6, pnd_theta0 = Fin 0.5, pnd_g = Fin 9.81\<rparr> (Fin 0.016)
     (pendulum_pause (pendulumSim \<lparr>pnd_length = Fin 1.6, pnd_theta0 = Fin 0.5, pnd_g = Fin 9.81\<rparr>))
   = \<lparr>pnd_theta = Fin 0.4992152, pnd_omega = Fin (- 0.04905), pnd_t = Fin 0.016, pnd_running = True\<rparr>
   \<and> pendulum_pause (pendulumSim \<lparr>pnd_length = Fin 1.6, pnd_theta0 = Fin 0.5, pnd_g = Fin 9.81\<rparr>)
   = \<lparr>pnd_theta = Fin 0.5, pnd_omega = Fin 0, pnd_t = Fin 0, pnd_running = True\<rparr>
   \<and> spring_step \<lparr>spg_k = Fin 50, spg_m = Fin 1.5, spg_x0 = Fin 0.6\<rparr> (Fin 0.016)
     (spring_pause (springSim \<lparr>spg_k = Fin 50, spg_m = Fin 1.5, spg_x0 = Fin 0.6\<rparr>))
   = \<lparr>spg_x = Fin 0.59488, spg_v = Fin (- 0.32), spg_t = Fin 0.016, spg_running = True\<rparr>"
  by (simp add: pendulum_step_def pendulum_pause_def pendulumSim_def
      spring_step_def spring_pause_def springSim_def Let_def)

section \<open>Resetting\<close>

lemma reset_twice:
  "projectile_reset (projectile_reset s1) = projectile_reset s1"
  "pendulum_reset (pendulum_reset s2) = pendulum_reset s2"
  "spring_reset (spring_reset s3) = spring_reset s3"
  "circular_reset c p4 (circular_reset c p4 s4) = circular_reset c p4 s4"
  "collision_reset c p5 (collision_reset c p5 s5) = collision_reset c p5 s5"
  "electric_reset c p6 (electric_reset c p6 s6) = electric_reset c p6 s6"
  by (simp_all add: projectile_reset_def pendulum_reset_def spring_reset_def circular_reset_def
      circular_draw_def collision_reset_def placeInitial_def electric_reset_def placeCharges_def
      Let_def maxTrace_def)

lemma reset_initial:
  "prj_t (projectile_reset s1) = Fin 0"
  "crc_angle (circular_reset c p4 s4) = Fin 0"
  "crc_trace (circular_reset c p4 s4) = [circular_point c p4 (Fin 0)]"
  "ball1 (collision_reset c p5 s5) = ball1 (collisionSim c p5)"
  "ball2 (collision_reset c p5 s5) = ball2 (collisionSim c p5)"
  "charges (electric_reset c p6 s6) = charges (electricSim c p6)"
  by (simp_all add: projectile_reset_def circular_reset_def circular_draw_def collision_reset_def
      collisionSim_def placeInitial_def electric_reset_def electricSim_def electric_start_def
      placeCharges_def Let_def maxTrace_def)

text \<open>
  Claim C4. A second \<^verbatim>\<open>reset()\<close> changes nothing in any of the six simulations, and in
  the projectile, circular, collision and electric simulations \<^verbatim>\<open>reset()\<close> gives the
  initial state of the parameters (the lemmas above). The pendulum's and the spring's
  \<^verbatim>\<open>reset()\<close> has an empty body: after a tick it leaves the advanced state where the
  initial one has \<open>theta = theta0\<close>, \<open>x = x0\<close> and zero velocity and time.
\<close>

theorem pendulum_and_spring_reset_keeps_state:
  "pendulum_reset
     (pendulum_step \<lparr>pnd_length = Fin 1.6, pnd_theta0 = Fin 0.5, pnd_g = Fin 9.81\<rparr> (Fin 0.016)
        (pendulumSim \<lparr>pnd_length = Fin 1.6, pnd_theta0 = Fin 0.5, pnd_g = Fin 9.81\<rparr>))
   = \<lparr>pnd_theta = Fin 0.4992152, pnd_omega = Fin (- 0.04905), pnd_t = Fin 0.016, pnd_running = True\<rparr>
   \<and> pendulumSim \<lparr>pnd_length = Fin 1.6, pnd_theta0 = Fin 0.5, pnd_g = Fin 9.81\<rparr>
   = \<lparr>pnd_theta = Fin 0.5, pnd_omega = Fin 0, pnd_t = Fin 0, pnd_running = True\<rparr>
   \<and> spring_reset
     (spring_step \<lparr>spg_k = Fin 50, spg_m = Fin 1.5, spg_x0 = Fin 0.6\<rparr> (Fin 0.016)
        (springSim \<lparr>spg_k = Fin 50, spg_m = Fin 1.5, spg_x0 = Fin 0.6\<rparr>))
   = \<lparr>spg_x = Fin 0.59488, spg_v = Fin (- 0.32), spg_t = Fin 0.016, spg_running = True\<rparr>
   \<and> springSim \<lparr>spg_k = Fin 50, spg_m = Fin 1.5, spg_x0 = Fin 0.6\<rparr>
   = \<lparr>spg_x = Fin 0.6, spg_v = Fin 0, spg_t = Fin 0, spg_running = True\<rparr>"
  by (simp add: pendulum_step_def pendulum_reset_def pendulumSim_def
      spring_step_def spring_reset_def springSim_def Let_def)

section \<open>Starting again\<close>

lemma start_keeps_state:
  "crc_angle (circular_start s1) = crc_angle s1 \<and> crc_trace (circular_start s1) = crc_trace s1"
  "pendulum_start s2 = s2"
  "spring_start s3 = s3"
  by (simp_all add: circular_start_def pendulum_start_def spring_start_def)

lemma electric_start_charges: "charges (electric_start c p s) = charges (electricSim c p)"
  by (simp add: electric_start_def electricSim_def placeCharges_def)

lemma start_initial:
  "prj_t (projectile_start s1) = Fin 0"
  "ball1 (collision_start c p s2) = ball1 (collisionSim c p)"
  "ball2 (collision_start c p s2) = ball2 (collisionSim c p)"
  by (simp_all add: projectile_start_def collision_start_def collisionSim_def placeInitial_def)

text \<open>
  Claim C8. \<^verbatim>\<open>start()\<close> of the circular simulation sets the flag only, and the
  pendulum's and the spring's do nothing. \<^verbatim>\<open>start()\<close> of the projectile sets the time
  back to 0 and \<^verbatim>\<open>start()\<close> of the collision places both balls anew: after one tick
  and \<^verbatim>\<open>pause()\<close>, the time 0.016 becomes 0 and the first ball goes from 75.96 back
  to 75.
\<close>

theorem start_after_pause_reinitialises:
  "prj_t (projectile_pause (projectile_step (Fin 0.016)
       (projectileSim \<lparr>prj_g = Fin 9.81, prj_speed = Fin 25, prj_angle = Fin 45\<rparr>))) = Fin 0.016
   \<and> prj_t (projectile_start (projectile_pause (projectile_step (Fin 0.016)
       (projectileSim \<lparr>prj_g = Fin 9.81, prj_speed = Fin 25, prj_angle = Fin 45\<rparr>)))) = Fin 0
   \<and> b_x (ball1 (collision_pause (collision_step \<lparr>width = Fin 300, height = Fin 360\<rparr>
       \<lparr>p_m1 = Some (Fin 2), p_m2 = Some (Fin 1), p_v1 = Some (Fin 3), p_v2 = Some (Fin (- 1)),
        p_r1 = Some (Fin 20), p_r2 = Some (Fin 20), p_e = Some (Fin 1)\<rparr>
       (collisionSim \<lparr>width = Fin 300, height = Fin 360\<rparr>
          \<lparr>p_m1 = Some (Fin 2), p_m2 = Some (Fin 1), p_v1 = Some (Fin 3), p_v2 = Some (Fin (- 1)),
           p_r1 = Some (Fin 20), p_r2 = Some (Fin 20), p_e = Some (Fin 1)\<rparr>)))) = Fin 75.96
   \<and> b_x (ball1 (collision_start \<lparr>width = Fin 300, height = Fin 360\<rparr>
       \<lparr>p_m1 = Some (Fin 2), p_m2 = Some (Fin 1), p_v1 = Some (Fin 3), p_v2 = Some (Fin (- 1)),
        p_r1 = Some (Fin 20), p_r2 = Some (Fin 20), p_e = Some (Fin 1)\<rparr>
       (collision_pause (collision_step \<lparr>width = Fin 300, height = Fin 360\<rparr>
       \<lparr>p_m1 = Some (Fin 2), p_m2 = Some (Fin 1), p_v1 = Some (Fin 3), p_v2 = Some (Fin (- 1)),
        p_r1 = Some (Fin 20), p_r2 = Some (Fin 20), p_e = Some (Fin 1)\<rparr>
       (collisionSim \<lparr>width = Fin 300, height = Fin 360\<rparr>
          \<lparr>p_m1 = Some (Fin 2), p_m2 = Some (Fin 1), p_v1 = Some (Fin 3), p_v2 = Some (Fin (- 1)),
           p_r1 = Some (Fin 20), p_r2 = Some (Fin 20), p_e = Some (Fin 1)\<rparr>))))) = Fin 75"
proof -
  have far: "sqrt (13823524 / 625) = (3718 / 25 :: real)"
    by (rule real_sqrt_unique) (simp_all add: power2_eq_square)
  show ?thesis
    by (simp add: projectile_step_def projectile_pause_def projectile_start_def projectileSim_def
        collision_step_def collision_pause_def collision_start_def collisionSim_def placeInitial_def
        update_def integrate_def wall_bounce_def collide_def Let_def pxScale_def falsy_def
        restitution_def far)
qed

section \<open>The field evaluator\<close>

lemma powr_three_halves:
  fixes x :: real
  assumes "0 < x"
  shows "x powr (3 / 2) = sqrt x ^ 3"
proof -
  have "x powr (3 / 2) = (x powr (1 / 2)) powr 3"
    by (simp add: powr_powr)
  also have "\<dots> = sqrt x powr 3"
    using assms by (simp add: powr_half_sqrt)
  also have "\<dots> = sqrt x ^ 3"
    using assms by (simp add: powr_numeral)
  finally show ?thesis .
qed

lemma field_add_Fin:
  "field_add (Fin gx) (Fin gy) (Fin ex, Fin ey) \<lparr>ch_x = Fin sx, ch_y = Fin sy, ch_q = Fin q\<rparr>
     = (Fin (ex + fst (source_field (sx, sy, q) (gx, gy))),
        Fin (ey + snd (source_field (sx, sy, q) (gx, gy))))"
proof (cases "dist2 sx sy gx gy < 16")
  case True
  then show ?thesis
    by (simp add: field_add_def source_field_def Let_def dist2_def)
next
  case False
  then have pos: "0 < dist2 sx sy gx gy" by simp
  then have nz: "sqrt (dist2 sx sy gx gy) ^ 3 \<noteq> 0" by simp
  from False pos nz show ?thesis
    unfolding field_add_def source_field_def Let_def
    by (simp add: powr_three_halves dist2_def [symmetric])
qed

lemma probe_guard:
  fixes i :: nat
  shows "(1 / 10000 :: real) < \<bar>real i / 119 - 33 / 100\<bar>"
    and "(1 / 10000 :: real) < \<bar>real i / 119 - 67 / 100\<bar>"
proof -
  have "i \<le> 39 \<or> 40 \<le> i" by arith
  then show "(1 / 10000 :: real) < \<bar>real i / 119 - 33 / 100\<bar>"
  proof
    assume "i \<le> 39"
    then have "real i \<le> 39" by simp
    then show ?thesis by (simp add: field_simps abs_if)
  next
    assume "40 \<le> i"
    then have "40 \<le> real i" by simp
    then show ?thesis by (simp add: field_simps abs_if)
  qed
  have "i \<le> 79 \<or> 80 \<le> i" by arith
  then show "(1 / 10000 :: real) < \<bar>real i / 119 - 67 / 100\<bar>"
  proof
    assume "i \<le> 79"
    then have "real i \<le> 79" by simp
    then show ?thesis by (simp add: field_simps abs_if)
  next
    assume "80 \<le> i"
    then have "80 \<le> real i" by simp
    then show ?thesis by (simp add: field_simps abs_if)
  qed
qed

lemma probe_Fin:
  "probe (Fin q1) (Fin q2) i
     = Fin (\<bar>q1\<bar> / (\<bar>real i / 119 - 33 / 100\<bar> * \<bar>real i / 119 - 33 / 100\<bar>)
          + \<bar>q2\<bar> / (\<bar>real i / 119 - 67 / 100\<bar> * \<bar>real i / 119 - 67 / 100\<bar>))"
proof -
  have g1: "(1 / 10000 :: real) < \<bar>real i / 119 - 33 / 100\<bar>"
    and g2: "(1 / 10000 :: real) < \<bar>real i / 119 - 67 / 100\<bar>"
    by (rule probe_guard)+
  have n1: "\<bar>real i / 119 - 33 / 100\<bar> \<noteq> 0" and n2: "\<bar>real i / 119 - 67 / 100\<bar> \<noteq> 0"
    using g1 g2 by linarith+
  show ?thesis
    using g1 g2 n1 n2 by (simp add: probe_def Let_def abs_mult)
qed

text \<open>
  Claim C6. At every point the grid loop of \<^verbatim>\<open>drawField\<close> computes the vector sum, over
  the two charges, of \<open>charge (p - sourcePos) / |p - sourcePos|^3\<close>, a charge at a squared
  distance below 16 left out. Every sample of the 1-D probe of the chart page is the
  scalar \<open>|q1| / r1^2 + |q2| / r2^2\<close>: the sum of the magnitudes, not of the signed terms.
\<close>

theorem field_vector_sum_and_probe_magnitudes:
  "field_at [\<lparr>ch_x = Fin x1, ch_y = Fin y1, ch_q = Fin q1\<rparr>,
             \<lparr>ch_x = Fin x2, ch_y = Fin y2, ch_q = Fin q2\<rparr>] (Fin gx) (Fin gy)
     = (Fin (fst (source_field (x1, y1, q1) (gx, gy)) + fst (source_field (x2, y2, q2) (gx, gy))),
        Fin (snd (source_field (x1, y1, q1) (gx, gy)) + snd (source_field (x2, y2, q2) (gx, gy))))
   \<and> probe (Fin q1) (Fin q2) i
     = Fin (\<bar>q1\<bar> / (probe_r 0.33 i * probe_r 0.33 i) + \<bar>q2\<bar> / (probe_r 0.67 i * probe_r 0.67 i))
   \<and> sm_Emag (chart_electric params)
     = map (probe (sm_q1 (chart_electric params)) (sm_q2 (chart_electric params))) [0..<120]"
proof -
  have "field_at [\<lparr>ch_x = Fin x1, ch_y = Fin y1, ch_q = Fin q1\<rparr>,
             \<lparr>ch_x = Fin x2, ch_y = Fin y2, ch_q = Fin q2\<rparr>] (Fin gx) (Fin gy)
     = (Fin (fst (source_field (x1, y1, q1) (gx, gy)) + fst (source_field (x2, y2, q2) (gx, gy))),
        Fin (snd (source_field (x1, y1, q1) (gx, gy)) + snd (source_field (x2, y2, q2) (gx, gy))))"
    by (simp add: field_at_def field_add_Fin)
  moreover have "probe (Fin q1) (Fin q2) i
     = Fin (\<bar>q1\<bar> / (probe_r 0.33 i * probe_r 0.33 i) + \<bar>q2\<bar> / (probe_r 0.67 i * probe_r 0.67 i))"
    by (simp add: probe_Fin probe_r_def)
  moreover have "sm_Emag (chart_electric params)
     = map (probe (sm_q1 (chart_electric params)) (sm_q2 (chart_electric params))) [0..<120]"
    by (simp add: chart_electric_def Let_def)
  ultimately show ?thesis by blast
qed

end
